theory Spec2Isabelle
  imports Complex_Main "HOL-Library.Sublist"
begin

section \<open>PySurfer views, camera paths and montages (surfer/viz.py)\<close>

text \<open>
  A shallow embedding of the view handling of class \<open>Brain\<close>: the two view
  dictionaries, \<open>__xfm_view\<close>, \<open>show_view\<close>, \<open>save_image\<close>, \<open>save_imageset\<close>,
  \<open>save_montage\<close>, \<open>__min_diff\<close>, \<open>animate\<close> and the part of \<open>__init__\<close> that
  selects the dictionary. Angles are real numbers (the arithmetic of the source is
  \<open>end - beg\<close>, \<open>x - 360\<close>, \<open>x + 360\<close>, \<open>d / float(n)\<close> and \<open>ov + i * dx\<close>; rounding of
  floating point numbers is not modelled). Exceptions are values of type \<open>error\<close>; a
  method returns its outcome together with the world it leaves behind, since a raise
  does not undo the files written and the camera moves made before it.
\<close>

subsection \<open>Data\<close>

type_synonym orientation = "real \<times> real"

type_synonym viewdict_t = "(string \<times> orientation) list"

definition lh_viewdict :: viewdict_t where
  "lh_viewdict =
     [(''lateral'', (180, 90)),
      (''medial'', (0, 90)),
      (''anterior'', (90, 90)),
      (''posterior'', (-90, 90)),
      (''dorsal'', (90, 0)),
      (''ventral'', (-90, 180))]"

definition rh_viewdict :: viewdict_t where
  "rh_viewdict =
     [(''lateral'', (0, 90)),
      (''medial'', (0, -90)),
      (''anterior'', (90, 90)),
      (''posterior'', (-90, -90)),
      (''dorsal'', (-90, 0)),
      (''ventral'', (90, 0))]"

text \<open>
  The exceptions of the modelled code. \<open>NameError\<close> stands for Python's
  \<open>UnboundLocalError\<close> (a subclass of \<open>NameError\<close>): reading a local variable that no
  assignment has reached.
\<close>

datatype error = ValueError | IndexError | NameError | AttributeError | KeyError
  | IOError | OSError

text \<open>
  A view as a caller passes it: a \<open>str\<close>, a tuple \<open>(azimuth, elevation)\<close>, or an object
  that is neither (\<open>VOther\<close> carries what \<open>%s\<close> prints for it).
\<close>

datatype view_spec = VName string | VTuple orientation | VOther string

text \<open>The \<open>views\<close> argument of \<open>save_imageset\<close>: one string, or a sequence of views.\<close>

datatype views_arg = Scalar string | Seq "view_spec list"

text \<open>What \<open>__xfm_view\<close> returns: the key (\<open>out = 's'\<close>) or its tuple (\<open>out = 't'\<close>).\<close>

datatype view_out = Str string | Tup orientation

text \<open>
  An image: its \<open>size\<close> \<open>(width, height)\<close> and the components pasted into it, each with
  its position and size. Pixels are not modelled.
\<close>

record image =
  dims :: "int \<times> int"
  tiles :: "((int \<times> int) \<times> (int \<times> int)) list"

text \<open>
  The world outside the class. \<open>camera\<close>, \<open>moves\<close> (every orientation given to
  \<open>mlab.view\<close>, in order), \<open>files\<close> (the image files on disk) and \<open>out\<close> (the lines
  printed) change; the other fields are the behaviour of the libraries, which the
  methods only read: \<open>report\<close> is what \<open>mlab.view(*b)[:2]\<close> returns after the camera
  was set to \<open>b\<close>, \<open>snapshot\<close> the size of the frame \<open>mlab.savefig\<close> writes for a camera
  orientation, \<open>tuple_str\<close> what \<open>%s\<close> prints for a tuple, and \<open>writable\<close> whether
  \<open>Image.save\<close> succeeds for a path.
\<close>

record world =
  camera :: orientation
  moves :: "orientation list"
  files :: "string \<rightharpoonup> image"
  out :: "string list"
  report :: "orientation \<Rightarrow> orientation"
  snapshot :: "orientation \<Rightarrow> int \<times> int"
  tuple_str :: "orientation \<Rightarrow> string"
  writable :: "string \<Rightarrow> bool"

type_synonym 'a outcome = "(error + 'a) \<times> world"

definition say :: "world \<Rightarrow> string \<Rightarrow> world" where
  "say w msg = w\<lparr>out := out w @ [msg]\<rparr>"

definition mlab_view :: "world \<Rightarrow> orientation \<Rightarrow> world" where
  "mlab_view w v = w\<lparr>camera := v, moves := moves w @ [v]\<rparr>"

definition mlab_savefig :: "world \<Rightarrow> string \<Rightarrow> world" where
  "mlab_savefig w fname =
     w\<lparr>files := (files w)(fname \<mapsto> \<lparr>dims = snapshot w (camera w), tiles = []\<rparr>)\<rparr>"

subsection \<open>\<open>__xfm_view\<close>\<close>

text \<open>
  \<^verbatim>\<open>
  if not view in self.viewdict:
      good_view = [k for k in self.viewdict if view == k[:len(view)]]
      if len(good_view) != 1:
          raise ValueError("bad view")
      view = good_view[0]
  if out == 't':
      return self.viewdict[view]
  else:
      return view
  \<close>
\<close>

definition xfm_result :: "viewdict_t \<Rightarrow> string \<Rightarrow> string \<Rightarrow> error + view_out" where
  "xfm_result vd view outp =
     (if outp = ''t''
      then (case map_of vd view of None \<Rightarrow> Inl KeyError | Some t \<Rightarrow> Inr (Tup t))
      else Inr (Str view))"

definition xfm_view :: "viewdict_t \<Rightarrow> string \<Rightarrow> string \<Rightarrow> error + view_out" where
  "xfm_view vd view outp =
     (if map_of vd view = None
      then (let good_view = filter (\<lambda>k. view = take (length view) k) (map fst vd)
            in if length good_view \<noteq> 1 then Inl ValueError
               else xfm_result vd (hd good_view) outp)
      else xfm_result vd view outp)"

subsection \<open>\<open>show_view\<close>\<close>

text \<open>
  \<^verbatim>\<open>
  if isinstance(view, str):
      if not view in self.viewdict:
          try:
              view = self.__xfm_view(view)
              mlab.view(*self.viewdict[view])
          except ValueError:
              print("Cannot display %s view. Must be preset view "
                    "name or leading substring" % view)
  elif isinstance(view, tuple):
      mlab.view(*view)
  else:
      raise ValueError(...)
  \<close>
  A string that is a key of the dictionary takes neither branch of the inner \<open>if\<close>.
\<close>

definition show_view :: "viewdict_t \<Rightarrow> world \<Rightarrow> view_spec \<Rightarrow> unit outcome" where
  "show_view vd w view =
     (case view of
        VName s \<Rightarrow>
          (if map_of vd s = None
           then (case xfm_view vd s ''s'' of
                   Inl e \<Rightarrow>
                     (if e = ValueError
                      then (Inr (), say w (''Cannot display '' @ s @
                              '' view. Must be preset view name or leading substring''))
                      else (Inl e, w))
                 | Inr (Str k) \<Rightarrow>
                     (case map_of vd k of
                        None \<Rightarrow> (Inl KeyError, w)
                      | Some t \<Rightarrow> (Inr (), mlab_view w t))
                 | Inr (Tup t) \<Rightarrow> (Inl KeyError, w))
           else (Inr (), w))
      | VTuple t \<Rightarrow> (Inr (), mlab_view w t)
      | VOther x \<Rightarrow> (Inl ValueError, w))"

subsection \<open>\<open>save_image\<close> and \<open>save_imageset\<close>\<close>

text \<open>\<open>str.rfind\<close>: the index of the last occurrence, \<open>-1\<close> when there is none.\<close>

definition rfind :: "string \<Rightarrow> char \<Rightarrow> int" where
  "rfind s c =
     (if c \<in> set s
      then int (length s) - 1 - int (length (takeWhile (\<lambda>x. x \<noteq> c) (rev s)))
      else - 1)"

definition good_ftypes :: "string list" where
  "good_ftypes = [''png'', ''jpg'', ''bmp'', ''tiff'', ''ps'',
                  ''eps'', ''pdf'', ''rib'', ''oogl'', ''iv'', ''vrml'', ''obj'']"

definition save_image :: "world \<Rightarrow> string \<Rightarrow> unit outcome" where
  "save_image w fname =
     (let ftype = drop (nat (rfind fname (CHR ''.'') + 1)) fname
      in if ftype \<notin> set good_ftypes then (Inl ValueError, w)
         else (Inr (), mlab_savefig w fname))"

text \<open>\<open>"%s" % view\<close>\<close>

definition view_str :: "world \<Rightarrow> view_spec \<Rightarrow> string" where
  "view_str w view =
     (case view of VName s \<Rightarrow> s | VTuple t \<Rightarrow> tuple_str w t | VOther x \<Rightarrow> x)"

text \<open>
  \<^verbatim>\<open>
  images_written = []
  for view in views:
      try:
          fname = "%s_%s.%s" % (prefix, view, filetype)
          images_written.append(fname)
          self.show_view(view)
          try:
              self.save_image(fname)
          except ValueError:
              print("Bad image type")
      except ValueError:
          print("Skipping %s: not in view dict" % view)
  return images_written
  \<close>
\<close>

fun save_imageset_loop ::
  "viewdict_t \<Rightarrow> string \<Rightarrow> string \<Rightarrow> view_spec list \<Rightarrow> string list \<Rightarrow> world
     \<Rightarrow> (string list) outcome" where
  "save_imageset_loop vd pre filetype [] images_written w = (Inr images_written, w)"
| "save_imageset_loop vd pre filetype (view # views) images_written w =
     (let fname = pre @ ''_'' @ view_str w view @ ''.'' @ filetype;
          written = images_written @ [fname]
      in case show_view vd w view of
           (Inl e, w1) \<Rightarrow>
             (if e = ValueError
              then save_imageset_loop vd pre filetype views written
                     (say w1 (''Skipping '' @ view_str w view @ '': not in view dict''))
              else (Inl e, w1))
         | (Inr u, w1) \<Rightarrow>
             (case save_image w1 fname of
                (Inl e, w2) \<Rightarrow>
                  (if e = ValueError
                   then save_imageset_loop vd pre filetype views written
                          (say w2 ''Bad image type'')
                   else (Inl e, w2))
              | (Inr u, w2) \<Rightarrow>
                  save_imageset_loop vd pre filetype views written w2))"

definition save_imageset ::
  "viewdict_t \<Rightarrow> world \<Rightarrow> string \<Rightarrow> views_arg \<Rightarrow> string \<Rightarrow> (string list) outcome" where
  "save_imageset vd w pre views filetype =
     (case views of
        Scalar s \<Rightarrow> (Inl ValueError, w)
      | Seq vs \<Rightarrow> save_imageset_loop vd pre filetype vs [] w)"

subsection \<open>\<open>save_montage\<close>\<close>

text \<open>\<open>Image.open\<close> raises \<open>IOError\<close> for a path that is no file; \<open>map\<close> stops there.\<close>

fun open_all :: "world \<Rightarrow> string list \<Rightarrow> error + image list" where
  "open_all w [] = Inr []"
| "open_all w (f # fs) =
     (case files w f of
        None \<Rightarrow> Inl IOError
      | Some i \<Rightarrow> (case open_all w fs of Inl e \<Rightarrow> Inl e | Inr is \<Rightarrow> Inr (i # is)))"

text \<open>\<open>max\<close> of an empty sequence raises \<open>ValueError\<close>.\<close>

definition py_max :: "int list \<Rightarrow> error + int" where
  "py_max xs = (case xs of [] \<Rightarrow> Inl ValueError | x # r \<Rightarrow> Inr (fold max r x))"

text \<open>
  \<^verbatim>\<open>
  if shape == 'h':
      w = sum(i.size[0] for i in images)
      h = max(i.size[1] for i in images)
  else:
      h = sum(i.size[1] for i in images)
      w = max(i.size[0] for i in images)
  new = Image.new("RGBA", (w, h))
  \<close>
\<close>

definition canvas_size :: "string \<Rightarrow> image list \<Rightarrow> error + (int \<times> int)" where
  "canvas_size shape images =
     (if shape = ''h''
      then (let w = sum_list (map (\<lambda>i. fst (dims i)) images)
            in case py_max (map (\<lambda>i. snd (dims i)) images) of
                 Inl e \<Rightarrow> Inl e
               | Inr h \<Rightarrow> Inr (w, h))
      else (let h = sum_list (map (\<lambda>i. snd (dims i)) images)
            in case py_max (map (\<lambda>i. fst (dims i)) images) of
                 Inl e \<Rightarrow> Inl e
               | Inr w \<Rightarrow> Inr (w, h)))"

text \<open>
  \<^verbatim>\<open>
  x = 0
  for i in images:
      if shape == 'h':
          pos = (x, 0)
          x += i.size[0]
      else:
          pos = (0, x)
          x += i.size[1]
      new.paste(i, pos)
  \<close>
\<close>

definition paste :: "image \<Rightarrow> image \<Rightarrow> int \<times> int \<Rightarrow> image" where
  "paste new i pos = new\<lparr>tiles := tiles new @ [(pos, dims i)]\<rparr>"

fun paste_all :: "string \<Rightarrow> image list \<Rightarrow> int \<Rightarrow> image \<Rightarrow> image" where
  "paste_all shape [] x new = new"
| "paste_all shape (i # is) x new =
     (if shape = ''h''
      then paste_all shape is (x + fst (dims i)) (paste new i (x, 0))
      else paste_all shape is (x + snd (dims i)) (paste new i (0, x)))"

text \<open>\<open>os.remove\<close> raises \<open>OSError\<close> for a path that is no file; the loop stops there.\<close>

fun remove_all :: "world \<Rightarrow> string list \<Rightarrow> unit outcome" where
  "remove_all w [] = (Inr (), w)"
| "remove_all w (f # fs) =
     (case files w f of
        None \<Rightarrow> (Inl OSError, w)
      | Some i \<Rightarrow> remove_all (w\<lparr>files := (files w)(f := None)\<rparr>) fs)"

text \<open>
  \<^verbatim>\<open>
  fnames = self.save_imageset("tmp", order)
  images = map(Image.open, fnames)
  ... (the canvas and the pasting, above)
  try:
      new.save(filename)
  except Exception:
      print("Error saving %s" % filename)
  for f in fnames:
      os.remove(f)
  \<close>
\<close>

definition save_montage ::
  "viewdict_t \<Rightarrow> world \<Rightarrow> string \<Rightarrow> views_arg \<Rightarrow> string \<Rightarrow> unit outcome" where
  "save_montage vd w filename order shape =
     (case save_imageset vd w ''tmp'' order ''png'' of
        (Inl e, w1) \<Rightarrow> (Inl e, w1)
      | (Inr fnames, w1) \<Rightarrow>
          (case open_all w1 fnames of
             Inl e \<Rightarrow> (Inl e, w1)
           | Inr images \<Rightarrow>
               (case canvas_size shape images of
                  Inl e \<Rightarrow> (Inl e, w1)
                | Inr wh \<Rightarrow>
                    (let new = paste_all shape images 0 \<lparr>dims = wh, tiles = []\<rparr>;
                         w2 = (if writable w1 filename
                               then w1\<lparr>files := (files w1)(filename \<mapsto> new)\<rparr>
                               else say w1 (''Error saving '' @ filename))
                     in remove_all w2 fnames))))"

subsection \<open>\<open>__min_diff\<close>\<close>

text \<open>
  \<^verbatim>\<open>
  d = np.array(end) - np.array(beg)
  new_diff = []
  for x in d:
      if x > 180:
          new_diff.append(x - 360)
      elif x < -180:
          new_diff.append(x + 360)
      else:
          new_diff.append(x)
  return np.array(new_diff)
  \<close>
  \<open>wrap_angle\<close> is the body of the loop; an orientation has two components.
\<close>

definition wrap_angle :: "real \<Rightarrow> real" where
  "wrap_angle x = (if x > 180 then x - 360 else if x < - 180 then x + 360 else x)"

definition min_diff :: "orientation \<Rightarrow> orientation \<Rightarrow> orientation" where
  "min_diff beg end = (wrap_angle (fst end - fst beg), wrap_angle (snd end - snd beg))"

subsection \<open>\<open>animate\<close>\<close>

text \<open>
  \<^verbatim>\<open>
  for i, v in enumerate(views):
      try:
          if isinstance(v, str):
              b = self.__xfm_view(v, 't')
          end = views[i + 1]
          if isinstance(end, str):
              e = self.__xfm_view(end, 't')
          d = self.__min_diff(b, e)
          dx = d / np.array((float(n)))
          ov = np.array(mlab.view(*b)[:2])
          for i in range(n):
              nv = ov + i * dx
              mlab.view(*nv)
      except IndexError:
          pass
  \<close>
  \<open>b\<close> and \<open>e\<close> are locals of the method: unbound (\<open>None\<close> here) until an assignment
  reaches them, and kept from one iteration to the next.
\<close>

text \<open>\<open>if isinstance(v, str): x = self.__xfm_view(v, 't')\<close>\<close>

definition assign_view ::
  "viewdict_t \<Rightarrow> view_spec \<Rightarrow> orientation option \<Rightarrow> error + orientation option" where
  "assign_view vd v x =
     (case v of
        VName s \<Rightarrow>
          (case xfm_view vd s ''t'' of
             Inl err \<Rightarrow> Inl err
           | Inr (Tup t) \<Rightarrow> Inr (Some t)
           | Inr (Str k) \<Rightarrow> Inl KeyError)
      | VTuple t \<Rightarrow> Inr x
      | VOther y \<Rightarrow> Inr x)"

text \<open>\<open>nv = ov + i * dx\<close> for \<open>i\<close> in \<open>range(n)\<close>; \<open>range(n)\<close> is empty for \<open>n \<le> 0\<close>.\<close>

definition frames :: "orientation \<Rightarrow> orientation \<Rightarrow> int \<Rightarrow> orientation list" where
  "frames ov dx n =
     map (\<lambda>i. (fst ov + real i * fst dx, snd ov + real i * snd dx)) [0..<nat n]"

text \<open>The body of the \<open>try\<close> from \<open>d = ...\<close> on, with \<open>b\<close> and \<open>e\<close> bound.\<close>

definition rotate :: "world \<Rightarrow> orientation \<Rightarrow> orientation \<Rightarrow> int \<Rightarrow> world" where
  "rotate w b e n =
     (let d = min_diff b e;
          dx = (fst d / real_of_int n, snd d / real_of_int n);
          w1 = mlab_view w b;
          ov = report w1 b
      in fold (\<lambda>nv w'. mlab_view w' nv) (frames ov dx n) w1)"

fun animate_loop ::
  "viewdict_t \<Rightarrow> int \<Rightarrow> view_spec list \<Rightarrow> orientation option \<Rightarrow> orientation option
     \<Rightarrow> world \<Rightarrow> unit outcome" where
  "animate_loop vd n [] b e w = (Inr (), w)"
| "animate_loop vd n (v # rest) b e w =
     (case assign_view vd v b of
        Inl err \<Rightarrow> (Inl err, w)
      | Inr b1 \<Rightarrow>
          (case rest of
             [] \<Rightarrow> animate_loop vd n rest b1 e w
           | end # others \<Rightarrow>
               (case assign_view vd end e of
                  Inl err \<Rightarrow> (Inl err, w)
                | Inr e1 \<Rightarrow>
                    (case b1 of
                       None \<Rightarrow> (Inl NameError, w)
                     | Some bv \<Rightarrow>
                         (case e1 of
                            None \<Rightarrow> (Inl NameError, w)
                          | Some ev \<Rightarrow>
                              animate_loop vd n rest b1 e1 (rotate w bv ev n))))))"

definition animate :: "viewdict_t \<Rightarrow> world \<Rightarrow> view_spec list \<Rightarrow> int \<Rightarrow> unit outcome" where
  "animate vd w views n = animate_loop vd n views None None w"

subsection \<open>\<open>__init__\<close>\<close>

text \<open>
  \<^verbatim>\<open>
  self.hemi = hemi
  if self.hemi == 'lh':
      self.viewdict = lh_viewdict
  elif self.hemi == 'rh':
      self.viewdict = rh_viewdict
  ... (the figure, the Surface and its geometry, the mesh and its surface)
  self.show_view("lat")
  \<close>
  The steps in between belong to \<open>mlab\<close> and to \<open>surfer.io\<close>; \<open>ext\<close> is what they do:
  \<open>None\<close> when all of them return, \<open>Some e\<close> when one raises \<open>e\<close>. An attribute that was
  never assigned is \<open>None\<close>, and reading it raises \<open>AttributeError\<close>.
\<close>

record brain =
  hemi :: string
  viewdict :: "viewdict_t option"

definition brain_init :: "world \<Rightarrow> error option \<Rightarrow> string \<Rightarrow> brain outcome" where
  "brain_init w ext h =
     (let self = \<lparr>hemi = h,
                  viewdict = (if h = ''lh'' then Some lh_viewdict
                              else if h = ''rh'' then Some rh_viewdict
                              else None)\<rparr>
      in case ext of
           Some e \<Rightarrow> (Inl e, w)
         | None \<Rightarrow>
             (case viewdict self of
                None \<Rightarrow> (Inl AttributeError, w)
              | Some vd \<Rightarrow>
                  (case show_view vd w (VName ''lat'') of
                     (Inl e, w1) \<Rightarrow> (Inl e, w1)
                   | (Inr u, w1) \<Rightarrow> (Inr self, w1))))"

subsection \<open>A concrete world\<close>

text \<open>
  An empty disk, a renderer that reports the orientation it was given and writes
  frames of 800 by 800 pixels (the size of the figure \<open>__init__\<close> opens), and a
  library that can write every path.
\<close>

definition world0 :: world where
  "world0 = \<lparr>camera = (0, 0), moves = [], files = Map.empty, out = [],
             report = (\<lambda>v. v), snapshot = (\<lambda>v. (800, 800)),
             tuple_str = (\<lambda>v. ''(az, el)''), writable = (\<lambda>p. True)\<rparr>"

section \<open>Properties\<close>

subsection \<open>The shortest camera path\<close>

lemma wrap_angle_range:
  "\<bar>x\<bar> \<le> 540 \<Longrightarrow> - 180 \<le> wrap_angle x \<and> wrap_angle x \<le> 180"
  unfolding wrap_angle_def by (auto simp: abs_le_iff)

text \<open>
  C2, as stated, fails: the specification puts every component of \<open>__min_diff\<close> in the
  half-open range from -180 (excluded) to 180. From the lateral view of the left
  hemisphere \<open>(180, 90)\<close> to its medial view \<open>(0, 90)\<close> the azimuth difference is
  exactly -180, which the test \<open>x < -180\<close> leaves as it is; and a raw difference of
  600 is wrapped once only, to 240.
\<close>

theorem min_diff_range_counterexample:
  "\<not> (- 180 < fst (min_diff (180, 90) (0, 90)) \<and> fst (min_diff (180, 90) (0, 90)) \<le> 180)
   \<and> \<not> (- 180 < fst (min_diff (0, 0) (600, 0)) \<and> fst (min_diff (0, 0) (600, 0)) \<le> 180)"
  by (simp add: min_diff_def wrap_angle_def)

text \<open>
  C2, amended: each component of \<open>__min_diff\<close> is \<open>end - beg\<close>, less 360 when that
  exceeds 180, plus 360 when it is below -180, and unchanged otherwise; it lies in the
  closed range from -180 to 180 whenever the raw difference lies between -540 and 540.
\<close>

theorem min_diff_wrap:
  "min_diff (a1, a2) (b1, b2) =
     (if b1 - a1 > 180 then b1 - a1 - 360 else if b1 - a1 < - 180 then b1 - a1 + 360 else b1 - a1,
      if b2 - a2 > 180 then b2 - a2 - 360 else if b2 - a2 < - 180 then b2 - a2 + 360 else b2 - a2)
   \<and> (\<bar>b1 - a1\<bar> \<le> 540 \<longrightarrow>
        - 180 \<le> fst (min_diff (a1, a2) (b1, b2)) \<and> fst (min_diff (a1, a2) (b1, b2)) \<le> 180)
   \<and> (\<bar>b2 - a2\<bar> \<le> 540 \<longrightarrow>
        - 180 \<le> snd (min_diff (a1, a2) (b1, b2)) \<and> snd (min_diff (a1, a2) (b1, b2)) \<le> 180)"
  using wrap_angle_range [of "b1 - a1"] wrap_angle_range [of "b2 - a2"]
  by (simp add: min_diff_def wrap_angle_def)

theorem min_diff_wrap_witness:
  "min_diff (180, 90) (0, 90) = (- 180, 0) \<and> min_diff (- 90, 180) (180, 90) = (- 90, - 90)"
  using min_diff_wrap [of 180 90 0 90] min_diff_wrap [of "- 90" 180 180 90]
  by simp

subsection \<open>Leading substrings of view names\<close>

lemma take_prefix_eq: "(p = take (length p) k) = prefix p k"
  by (metis prefix_def append_eq_conv_conj take_is_prefix)

lemma good_view_length:
  "distinct (map fst vd) \<Longrightarrow>
   length (filter (\<lambda>k. p = take (length p) k) (map fst vd))
     = card {k \<in> set (map fst vd). prefix p k}"
  by (simp only: take_prefix_eq distinct_length_filter) (simp add: Int_def conj_commute)

lemma xfm_view_key:
  "map_of vd k \<noteq> None \<Longrightarrow> xfm_view vd k outp = xfm_result vd k outp"
  by (cases "map_of vd k") (simp_all add: xfm_view_def)

lemma filter_single:
  assumes "length (filter P xs) = 1" and "k \<in> set xs" and "P k"
  shows "hd (filter P xs) = k"
proof -
  obtain y where y: "filter P xs = [y]"
    using assms(1) by (cases "filter P xs") auto
  have "k \<in> set (filter P xs)" using assms(2,3) by simp
  with y show ?thesis by simp
qed

text \<open>
  C5: a dictionary has each key once. For a string \<open>p\<close> that is no key: when \<open>p\<close> is a
  leading substring of exactly one key \<open>k\<close>, \<open>__xfm_view\<close> gives for \<open>p\<close> what it gives
  for \<open>k\<close>, namely the key \<open>k\<close> itself, or with \<open>out = 't'\<close> the tuple the dictionary
  holds for \<open>k\<close>; when \<open>p\<close> is a leading substring of no key or of several,
  \<open>__xfm_view\<close> raises \<open>ValueError\<close>. The empty string needs no exception: it is a
  leading substring of every key.
\<close>

theorem xfm_view_leading_substring:
  assumes "distinct (map fst vd)" and "p \<notin> set (map fst vd)"
  shows "(k \<in> set (map fst vd) \<and> prefix p k \<and> card {k' \<in> set (map fst vd). prefix p k'} = 1
            \<longrightarrow> xfm_view vd p outp = xfm_view vd k outp
              \<and> xfm_view vd p ''s'' = Inr (Str k)
              \<and> (\<exists>t. map_of vd k = Some t \<and> xfm_view vd p ''t'' = Inr (Tup t))
              \<and> (outp \<noteq> ''t'' \<longrightarrow> xfm_view vd p outp = Inr (Str k)))
       \<and> (card {k' \<in> set (map fst vd). prefix p k'} \<noteq> 1
            \<longrightarrow> xfm_view vd p outp = Inl ValueError)"
proof -
  let ?good = "filter (\<lambda>k. p = take (length p) k) (map fst vd)"
  have none: "map_of vd p = None"
    using assms(2) by (simp add: map_of_eq_None_iff)
  have len: "length ?good = card {k' \<in> set (map fst vd). prefix p k'}"
    using assms(1) by (rule good_view_length)
  have one: "xfm_view vd p outp = xfm_view vd k outp
              \<and> xfm_view vd p ''s'' = Inr (Str k)
              \<and> (\<exists>t. map_of vd k = Some t \<and> xfm_view vd p ''t'' = Inr (Tup t))
              \<and> (outp \<noteq> ''t'' \<longrightarrow> xfm_view vd p outp = Inr (Str k))"
    if k: "k \<in> set (map fst vd)" and pk: "prefix p k"
      and c: "card {k' \<in> set (map fst vd). prefix p k'} = 1"
  proof -
    have l1: "length ?good = 1" using len c by simp
    have "hd ?good = k"
      using l1 k pk by (intro filter_single) (simp_all add: take_prefix_eq)
    then have r: "xfm_view vd p q = xfm_result vd k q" for q
      using none l1 by (simp add: xfm_view_def)
    have some: "map_of vd k \<noteq> None"
      using k by (simp add: map_of_eq_None_iff)
    then obtain t where t: "map_of vd k = Some t" by auto
    have "xfm_view vd p outp = xfm_view vd k outp"
      using r some by (simp add: xfm_view_key)
    moreover have "xfm_view vd p ''s'' = Inr (Str k)"
      using r by (simp add: xfm_result_def)
    moreover have "xfm_view vd p ''t'' = Inr (Tup t)"
      using r t by (simp add: xfm_result_def)
    moreover have "xfm_view vd p outp = Inr (Str k)" if "outp \<noteq> ''t''"
      using r that by (simp add: xfm_result_def)
    ultimately show ?thesis using t by blast
  qed
  have other: "xfm_view vd p outp = Inl ValueError"
    if "card {k' \<in> set (map fst vd). prefix p k'} \<noteq> 1"
    using that none len by (simp add: xfm_view_def)
  show ?thesis using one other by blast
qed

theorem xfm_view_leading_substring_witness:
  "xfm_view lh_viewdict ''lat'' ''t'' = xfm_view lh_viewdict ''lateral'' ''t''
   \<and> xfm_view lh_viewdict ''lat'' ''s'' = Inr (Str ''lateral'')
   \<and> xfm_view lh_viewdict ''lat'' ''t'' = Inr (Tup (180, 90))
   \<and> xfm_view lh_viewdict ''zz'' ''t'' = Inl ValueError
   \<and> xfm_view [(''lateral'', (180, 90)), (''later'', (0, 0))] ''lat'' ''s'' = Inl ValueError"
proof -
  let ?vd2 = "[(''lateral'', (180, 90)), (''later'', (0, 0))] :: viewdict_t"
  have d: "distinct (map fst lh_viewdict)"
    by (simp add: lh_viewdict_def)
  have n1: "''lat'' \<notin> set (map fst lh_viewdict)"
    by (simp add: lh_viewdict_def)
  have n0: "''zz'' \<notin> set (map fst lh_viewdict)"
    by (simp add: lh_viewdict_def)
  have k1: "''lateral'' \<in> set (map fst lh_viewdict)"
    by (simp add: lh_viewdict_def)
  have m1: "map_of lh_viewdict ''lateral'' = Some (180, 90)"
    by (simp add: lh_viewdict_def)
  have c1: "{k' \<in> set (map fst lh_viewdict). prefix ''lat'' k'} = {''lateral''}"
    by (auto simp: lh_viewdict_def)
  have c0: "{k' \<in> set (map fst lh_viewdict). prefix ''zz'' k'} = {}"
    by (auto simp: lh_viewdict_def)
  have d2: "distinct (map fst ?vd2)" and n2: "''lat'' \<notin> set (map fst ?vd2)"
    by simp_all
  have c2: "{k' \<in> set (map fst ?vd2). prefix ''lat'' k'} = {''lateral'', ''later''}"
    by auto
  have e1: "card {k' \<in> set (map fst lh_viewdict). prefix ''lat'' k'} = 1"
    unfolding c1 by simp
  have e0: "card {k' \<in> set (map fst lh_viewdict). prefix ''zz'' k'} \<noteq> 1"
    unfolding c0 by simp
  have e2: "card {k' \<in> set (map fst ?vd2). prefix ''lat'' k'} \<noteq> 1"
    unfolding c2 by simp
  have p1: "prefix ''lat'' ''lateral''"
    by simp
  have a: "xfm_view lh_viewdict ''lat'' ''t'' = xfm_view lh_viewdict ''lateral'' ''t''
      \<and> xfm_view lh_viewdict ''lat'' ''s'' = Inr (Str ''lateral'')
      \<and> (\<exists>t. map_of lh_viewdict ''lateral'' = Some t
              \<and> xfm_view lh_viewdict ''lat'' ''t'' = Inr (Tup t))"
    using xfm_view_leading_substring [OF d n1, of "''lateral''" "''t''"] k1 p1 e1
    by blast
  then have "xfm_view lh_viewdict ''lat'' ''t'' = Inr (Tup (180, 90))"
    using m1 by auto
  moreover have "xfm_view lh_viewdict ''zz'' ''t'' = Inl ValueError"
    using xfm_view_leading_substring [OF d n0, of "''lateral''" "''t''"] e0
    by blast
  moreover have "xfm_view ?vd2 ''lat'' ''s'' = Inl ValueError"
    using xfm_view_leading_substring [OF d2 n2, of "''lateral''" "''s''"] e2
    by blast
  ultimately show ?thesis using a by simp
qed

subsection \<open>The canvas of a montage\<close>

lemma py_max_Max: "xs \<noteq> [] \<Longrightarrow> py_max xs = Inr (Max (set xs))"
  by (cases xs) (simp_all add: py_max_def Max.set_eq_fold [symmetric])

text \<open>
  C7: for a non-empty sequence of component images, the canvas of a horizontal montage
  is as wide as the widths together and as high as the highest component; for a
  vertical montage the canvas is as wide as the widest component and as high as the
  heights together. Components of sizes (10, 20) and (15, 20) give (25, 20)
  horizontally and (15, 40) vertically.
\<close>

theorem canvas_size_sum_max:
  assumes "images \<noteq> []"
  shows "canvas_size ''h'' images =
           Inr (sum_list (map (\<lambda>i. fst (dims i)) images),
                Max (set (map (\<lambda>i. snd (dims i)) images)))
       \<and> canvas_size ''v'' images =
           Inr (Max (set (map (\<lambda>i. fst (dims i)) images)),
                sum_list (map (\<lambda>i. snd (dims i)) images))"
  using assms by (simp add: canvas_size_def py_max_Max)

theorem canvas_size_sum_max_witness:
  "canvas_size ''h'' [\<lparr>dims = (10, 20), tiles = []\<rparr>, \<lparr>dims = (15, 20), tiles = []\<rparr>]
     = Inr (25, 20)
   \<and> canvas_size ''v'' [\<lparr>dims = (10, 20), tiles = []\<rparr>, \<lparr>dims = (15, 20), tiles = []\<rparr>]
     = Inr (15, 40)"
  using canvas_size_sum_max
    [of "[\<lparr>dims = (10, 20), tiles = []\<rparr>, \<lparr>dims = (15, 20), tiles = []\<rparr>]"]
  by simp

subsection \<open>Showing one view\<close>

lemma xfm_view_s_cases:
  "xfm_view vd s ''s'' = Inl ValueError
   \<or> (\<exists>k. xfm_view vd s ''s'' = Inr (Str k) \<and> map_of vd k \<noteq> None)"
proof (cases "map_of vd s = None")
  case False
  then show ?thesis by (auto simp: xfm_view_def xfm_result_def)
next
  case True
  let ?good = "filter (\<lambda>k. s = take (length s) k) (map fst vd)"
  show ?thesis
  proof (cases "length ?good = 1")
    case False
    with True show ?thesis by (simp add: xfm_view_def)
  next
    case l: True
    then have "?good \<noteq> []" by (metis list.size(3) zero_neq_one)
    then have "hd ?good \<in> set ?good" by (rule hd_in_set)
    then have "hd ?good \<in> set (map fst vd)" by (metis filter_is_subset subsetD)
    then have "map_of vd (hd ?good) \<noteq> None" by (simp add: map_of_eq_None_iff)
    with True l show ?thesis by (simp add: xfm_view_def xfm_result_def)
  qed
qed

lemma show_view_name_returns: "fst (show_view vd w (VName s)) = Inr ()"
  using xfm_view_s_cases [of vd s] by (auto simp: show_view_def)

text \<open>
  C6, as stated, fails: the specification has an unknown view name raise out of \<open>show_view\<close>.
  \<open>show_view\<close> catches the \<open>ValueError\<close> of \<open>__xfm_view\<close> itself: for the unknown
  name \<open>zzz\<close> it returns normally.
\<close>

theorem show_view_unknown_counterexample:
  "fst (show_view lh_viewdict world0 (VName ''zzz'')) = Inr ()"
  by (simp add: show_view_def xfm_view_def lh_viewdict_def)

text \<open>
  C6, amended: \<open>show_view\<close> called with a string that \<open>__xfm_view\<close> rejects recovers
  locally: it prints that the view cannot be displayed, leaves the camera where it is
  and returns normally. \<open>show_view\<close> raises \<open>ValueError\<close> to its caller only for a view
  that is neither a string nor a tuple, and for every such view: every string returns
  normally, a tuple is passed to \<open>mlab.view\<close>, and no other exception leaves it.
\<close>

theorem show_view_swallows:
  "(xfm_view vd s ''s'' = Inl ValueError \<longrightarrow>
      show_view vd w (VName s) =
        (Inr (), say w (''Cannot display '' @ s @
                        '' view. Must be preset view name or leading substring'')))
   \<and> show_view vd w (VOther x) = (Inl ValueError, w)
   \<and> (fst (show_view vd w v) = Inl ValueError) = (\<exists>y. v = VOther y)
   \<and> isl (fst (show_view vd w v)) = (\<exists>y. v = VOther y)
   \<and> fst (show_view vd w (VName s)) = Inr ()
   \<and> show_view vd w (VTuple t) = (Inr (), mlab_view w t)"
proof -
  have a: "map_of vd s = None" if "xfm_view vd s ''s'' = Inl ValueError"
    using that by (cases "map_of vd s") (simp_all add: xfm_view_def xfm_result_def)
  have b: "(fst (show_view vd w v) = Inl ValueError) = (\<exists>y. v = VOther y)"
  proof (cases v)
    case (VName s')
    then show ?thesis using show_view_name_returns [of vd w s'] by simp
  next
    case (VTuple t')
    then show ?thesis by (simp add: show_view_def)
  next
    case (VOther y)
    then show ?thesis by (simp add: show_view_def)
  qed
  have b': "isl (fst (show_view vd w v)) = (\<exists>y. v = VOther y)"
  proof (cases v)
    case (VName s')
    then show ?thesis using show_view_name_returns [of vd w s'] by simp
  next
    case (VTuple t')
    then show ?thesis by (simp add: show_view_def)
  next
    case (VOther y)
    then show ?thesis by (simp add: show_view_def)
  qed
  have c: "show_view vd w (VOther x) = (Inl ValueError, w)"
    and d: "show_view vd w (VTuple t) = (Inr (), mlab_view w t)"
    by (simp_all add: show_view_def)
  have e: "show_view vd w (VName s) =
        (Inr (), say w (''Cannot display '' @ s @
                        '' view. Must be preset view name or leading substring''))"
    if "xfm_view vd s ''s'' = Inl ValueError"
    using that a by (simp add: show_view_def)
  show ?thesis using b b' c d e show_view_name_returns [of vd w s] by blast
qed

theorem show_view_swallows_witness:
  "show_view lh_viewdict world0 (VName ''zzz'') =
     (Inr (), say world0
        ''Cannot display zzz view. Must be preset view name or leading substring'')
   \<and> camera (snd (show_view lh_viewdict world0 (VName ''zzz''))) = camera world0
   \<and> moves (snd (show_view lh_viewdict world0 (VName ''zzz''))) = []
   \<and> fst (show_view lh_viewdict world0 (VTuple (10, 20))) \<noteq> Inl ValueError
   \<and> fst (show_view lh_viewdict world0 (VName ''lat'')) = Inr ()
   \<and> show_view lh_viewdict world0 (VOther ''5'') = (Inl ValueError, world0)"
proof -
  have "xfm_view lh_viewdict ''zzz'' ''s'' = Inl ValueError"
    by (simp add: xfm_view_def lh_viewdict_def)
  then show ?thesis
    using show_view_swallows [of lh_viewdict "''zzz''" world0 "''5''" "VTuple (10, 20)" "(10, 20)"]
      show_view_swallows [of lh_viewdict "''lat''" world0 "''5''" "VTuple (10, 20)" "(10, 20)"]
    by (simp add: say_def world0_def)
qed

subsection \<open>Constructing a Brain\<close>

lemma xfm_view_lat: "xfm_view lh_viewdict ''lat'' ''s'' = Inr (Str ''lateral'')"
  by (simp add: xfm_view_def xfm_result_def lh_viewdict_def)

lemma xfm_view_lat_rh: "xfm_view rh_viewdict ''lat'' ''s'' = Inr (Str ''lateral'')"
  by (simp add: xfm_view_def xfm_result_def rh_viewdict_def)

lemma show_view_lat_lh:
  "show_view lh_viewdict w (VName ''lat'') = (Inr (), mlab_view w (180, 90))"
  by (simp add: show_view_def xfm_view_lat) (simp add: lh_viewdict_def)

lemma show_view_lat_rh:
  "show_view rh_viewdict w (VName ''lat'') = (Inr (), mlab_view w (0, 90))"
  by (simp add: show_view_def xfm_view_lat_rh) (simp add: rh_viewdict_def)

text \<open>
  C10: with a hemisphere other than \<open>lh\<close> and \<open>rh\<close> the constructor never assigns
  \<open>viewdict\<close>; when the steps before it return, its own \<open>show_view("lat")\<close> raises
  \<open>AttributeError\<close>, and whatever those steps do the construction fails. With \<open>lh\<close> or
  \<open>rh\<close> it succeeds and shows the lateral view.
\<close>

theorem brain_init_hemi:
  "(h \<noteq> ''lh'' \<and> h \<noteq> ''rh'' \<longrightarrow>
      brain_init w None h = (Inl AttributeError, w) \<and> isl (fst (brain_init w ext h)))
   \<and> brain_init w None ''lh'' =
       (Inr \<lparr>hemi = ''lh'', viewdict = Some lh_viewdict\<rparr>, mlab_view w (180, 90))
   \<and> brain_init w None ''rh'' =
       (Inr \<lparr>hemi = ''rh'', viewdict = Some rh_viewdict\<rparr>, mlab_view w (0, 90))"
  by (cases ext) (simp_all add: brain_init_def show_view_lat_lh show_view_lat_rh)

theorem brain_init_hemi_witness:
  "brain_init world0 None ''split'' = (Inl AttributeError, world0)
   \<and> isl (fst (brain_init world0 (Some IOError) ''split''))"
  using brain_init_hemi [of "''split''" world0 "Some IOError"] by simp

subsection \<open>Animation\<close>

lemma xfm_view_t_cases:
  "xfm_view vd s ''t'' = Inl ValueError \<or> (\<exists>t. xfm_view vd s ''t'' = Inr (Tup t))"
proof (cases "map_of vd s = None")
  case False
  then show ?thesis by (auto simp: xfm_view_def xfm_result_def)
next
  case True
  let ?good = "filter (\<lambda>k. s = take (length s) k) (map fst vd)"
  show ?thesis
  proof (cases "length ?good = 1")
    case False
    with True show ?thesis by (simp add: xfm_view_def)
  next
    case l: True
    then have "?good \<noteq> []" by (metis list.size(3) zero_neq_one)
    then have "hd ?good \<in> set ?good" by (rule hd_in_set)
    then have "hd ?good \<in> set (map fst vd)" by (metis filter_is_subset subsetD)
    then have "map_of vd (hd ?good) \<noteq> None" by (simp add: map_of_eq_None_iff)
    with True l show ?thesis by (auto simp: xfm_view_def xfm_result_def)
  qed
qed

lemma assign_view_name:
  "assign_view vd (VName s) x = Inl ValueError \<and> xfm_view vd s ''t'' = Inl ValueError
   \<or> (\<exists>t. assign_view vd (VName s) x = Inr (Some t) \<and> xfm_view vd s ''t'' = Inr (Tup t))"
  using xfm_view_t_cases [of vd s] by (auto simp: assign_view_def)

lemma animate_loop_unknown:
  assumes "\<forall>v \<in> set views. \<exists>s. v = VName s"
    and "VName s \<in> set views"
    and "xfm_view vd s ''t'' = Inl ValueError"
  shows "fst (animate_loop vd n views b e w) = Inl ValueError"
  using assms
proof (induction views arbitrary: b e w)
  case Nil
  then show ?case by simp
next
  case (Cons v rest)
  from Cons.prems(1) obtain s0 where v: "v = VName s0" by auto
  show ?case
  proof (cases "xfm_view vd s0 ''t'' = Inl ValueError")
    case True
    then show ?thesis by (simp add: v assign_view_def)
  next
    case False
    then obtain t where t: "assign_view vd v b = Inr (Some t)"
      using assign_view_name [of vd s0 b] v by auto
    from False Cons.prems(2,3) v have inrest: "VName s \<in> set rest" by auto
    then obtain x others where rest: "rest = x # others" by (cases rest) auto
    from Cons.prems(1) rest obtain s1 where x: "x = VName s1" by auto
    have all: "\<forall>v \<in> set rest. \<exists>s. v = VName s" using Cons.prems(1) by simp
    show ?thesis
    proof (cases "xfm_view vd s1 ''t'' = Inl ValueError")
      case True
      then show ?thesis using t rest x by (simp add: assign_view_def)
    next
      case f1: False
      then obtain t1 where t1: "assign_view vd x e = Inr (Some t1)"
        using assign_view_name [of vd s1 e] x by auto
      have "animate_loop vd n (v # rest) b e w
              = animate_loop vd n rest (Some t) (Some t1) (rotate w t t1 n)"
        using t t1 rest by simp
      then show ?thesis
        using Cons.IH [OF all inrest Cons.prems(3)] by simp
    qed
  qed
qed

lemma assign_view_resolved:
  "xfm_view vd s ''t'' = Inr (Tup t) \<Longrightarrow> assign_view vd (VName s) x = Inr (Some t)"
  by (simp add: assign_view_def)

lemma assign_view_rejected:
  "xfm_view vd s ''t'' = Inl ValueError \<Longrightarrow> assign_view vd (VName s) x = Inl ValueError"
  by (simp add: assign_view_def)

lemma animate_loop_stops:
  assumes "\<forall>v \<in> set pre. \<exists>s' t. v = VName s' \<and> xfm_view vd s' ''t'' = Inr (Tup t)"
    and "xfm_view vd s ''t'' = Inl ValueError"
  shows "animate_loop vd n (pre @ VName s # post) b e w
           = (Inl ValueError, snd (animate_loop vd n pre b e w))
         \<and> fst (animate_loop vd n pre b e w) = Inr ()"
  using assms(1)
proof (induction pre arbitrary: b e w)
  case Nil
  show ?case using assms(2) by (simp add: assign_view_rejected)
next
  case (Cons v rest)
  from Cons.prems obtain s0 t0 where v: "v = VName s0"
    and t0: "xfm_view vd s0 ''t'' = Inr (Tup t0)" by auto
  have b1: "assign_view vd v b = Inr (Some t0)"
    using v t0 by (simp add: assign_view_resolved)
  show ?case
  proof (cases rest)
    case Nil
    then show ?thesis
      using b1 assms(2) by (simp add: assign_view_rejected)
  next
    case (Cons x others)
    with Cons.prems obtain s1 t1 where x: "x = VName s1"
      and t1: "xfm_view vd s1 ''t'' = Inr (Tup t1)" by auto
    have e1: "assign_view vd x e = Inr (Some t1)"
      using x t1 by (simp add: assign_view_resolved)
    have all: "\<forall>v \<in> set rest. \<exists>s' t. v = VName s' \<and> xfm_view vd s' ''t'' = Inr (Tup t)"
      using Cons.prems by simp
    have l: "animate_loop vd n ((v # rest) @ VName s # post) b e w
           = animate_loop vd n (rest @ VName s # post) (Some t0) (Some t1) (rotate w t0 t1 n)"
      using b1 e1 Cons by simp
    have r: "animate_loop vd n (v # rest) b e w
           = animate_loop vd n rest (Some t0) (Some t1) (rotate w t0 t1 n)"
      using b1 e1 Cons by simp
    show ?thesis
      unfolding l r using Cons.IH [OF all] by simp
  qed
qed

lemma animate_loop_resolved:
  assumes "map (\<lambda>s. xfm_view vd s ''t'') names = map (\<lambda>t. Inr (Tup t)) ts"
  shows "animate_loop vd n (map VName names) b e w
           = (Inr (), fold (\<lambda>(b, e) w'. rotate w' b e n) (zip ts (tl ts)) w)"
  using assms
proof (induction names arbitrary: ts b e w)
  case Nil
  then show ?case by simp
next
  case (Cons s0 rest)
  then obtain t0 ts' where ts: "ts = t0 # ts'"
    and t0: "xfm_view vd s0 ''t'' = Inr (Tup t0)"
    and r: "map (\<lambda>s. xfm_view vd s ''t'') rest = map (\<lambda>t. Inr (Tup t)) ts'"
    by (cases ts) auto
  show ?case
  proof (cases rest)
    case Nil
    with r have "ts' = []" by simp
    then show ?thesis using Nil ts t0 by (simp add: assign_view_resolved)
  next
    case (Cons s1 rest')
    with r obtain t1 ts'' where ts': "ts' = t1 # ts''"
      and t1: "xfm_view vd s1 ''t'' = Inr (Tup t1)"
      by (cases ts') auto
    have "animate_loop vd n (map VName (s0 # rest)) b e w
            = animate_loop vd n (map VName rest) (Some t0) (Some t1) (rotate w t0 t1 n)"
      using Cons t0 t1 by (simp add: assign_view_resolved)
    then show ?thesis
      using Cons.IH [OF r, of "Some t0" "Some t1" "rotate w t0 t1 n"] ts ts' by simp
  qed
qed

lemma resolved_names:
  assumes "map (\<lambda>s. xfm_view vd s ''t'') names = map (\<lambda>t. Inr (Tup t)) ts"
  shows "\<forall>v \<in> set (map VName names). \<exists>s' t. v = VName s' \<and> xfm_view vd s' ''t'' = Inr (Tup t)"
  using assms
proof (induction names arbitrary: ts)
  case Nil
  then show ?case by simp
next
  case (Cons s0 rest)
  then obtain t0 ts' where "ts = t0 # ts'"
    and "xfm_view vd s0 ''t'' = Inr (Tup t0)"
    and "map (\<lambda>s. xfm_view vd s ''t'') rest = map (\<lambda>t. Inr (Tup t)) ts'"
    by (cases ts) auto
  with Cons.IH show ?case by auto
qed

lemma animate_loop_stops_at:
  assumes "map (\<lambda>s. xfm_view vd s ''t'') names = map (\<lambda>t. Inr (Tup t)) ts"
    and "xfm_view vd s ''t'' = Inl ValueError"
  shows "animate_loop vd n (map VName names @ VName s # post) b e w
           = (Inl ValueError, fold (\<lambda>(b, e) w'. rotate w' b e n) (zip ts (tl ts)) w)"
  using animate_loop_stops [OF resolved_names [OF assms(1)] assms(2), of n post b e w]
    animate_loop_resolved [OF assms(1), of n b e w]
  by simp

text \<open>
  C4, as stated, fails: the specification has \<open>animate\<close> swallow the error of an unknown view
  name, skip that step and go on. \<open>animate\<close> catches \<open>IndexError\<close> only. On the path
  lat, med, zzz, ven with two steps it rotates from lat to med, then raises the
  \<open>ValueError\<close> of \<open>zzz\<close>; the camera never moves towards ven.
\<close>

theorem animate_unknown_view_counterexample:
  "fst (animate lh_viewdict world0 [VName ''lat'', VName ''med'', VName ''zzz'', VName ''ven''] 2)
     = Inl ValueError
   \<and> moves (snd (animate lh_viewdict world0
                    [VName ''lat'', VName ''med'', VName ''zzz'', VName ''ven''] 2))
     = [(180, 90), (180, 90), (90, 90)]"
  by (simp add: animate_def assign_view_def xfm_view_def xfm_result_def lh_viewdict_def
      rotate_def frames_def min_diff_def wrap_angle_def mlab_view_def world0_def
      upt_conv_Cons Let_def)

text \<open>
  C4, amended: during \<open>animate\<close> over a sequence of view names, if one of the names is
  rejected by \<open>__xfm_view\<close>, the \<open>ValueError\<close> is not caught: it reaches the caller and
  the call ends there. Only the \<open>IndexError\<close> behind the last view is swallowed. When
  the names before the rejected one all resolve, the call has rotated the camera
  through each pair of consecutive orientations among them and nothing else: the
  world it leaves is the world that animating those names alone leaves, so that the
  step towards the rejected name and every step after it are not run, whatever
  follows it in the sequence.
\<close>

theorem animate_unknown_view_raises:
  "(map (\<lambda>s'. xfm_view vd s' ''t'') names = map (\<lambda>t. Inr (Tup t)) ts
      \<and> xfm_view vd s ''t'' = Inl ValueError
    \<longrightarrow> animate vd w (map VName names @ VName s # post) n
          = (Inl ValueError, fold (\<lambda>(b, e) w'. rotate w' b e n) (zip ts (tl ts)) w))
   \<and> ((\<forall>v \<in> set pre. \<exists>s' t. v = VName s' \<and> xfm_view vd s' ''t'' = Inr (Tup t))
      \<and> xfm_view vd s ''t'' = Inl ValueError
    \<longrightarrow> animate vd w (pre @ VName s # post) n = (Inl ValueError, snd (animate vd w pre n))
        \<and> fst (animate vd w pre n) = Inr ())
   \<and> ((\<forall>v \<in> set views. \<exists>s'. v = VName s') \<and> VName s \<in> set views
      \<and> xfm_view vd s ''t'' = Inl ValueError
    \<longrightarrow> fst (animate vd w views n) = Inl ValueError)"
  unfolding animate_def
  using animate_loop_stops [of pre vd s n post None None w]
    animate_loop_unknown [of views s vd n None None w]
    animate_loop_stops_at [of vd names ts s n post None None w]
  by blast

theorem animate_unknown_view_raises_witness:
  "animate lh_viewdict world0 [VName ''med'', VName ''lat'', VName ''zzz'', VName ''ven''] 3
     = (Inl ValueError, rotate world0 (0, 90) (180, 90) 3)
   \<and> animate lh_viewdict world0 [VName ''med'', VName ''lat'', VName ''zzz'', VName ''ven''] 3
     = (Inl ValueError, snd (animate lh_viewdict world0 [VName ''med'', VName ''lat''] 3))
   \<and> moves (snd (animate lh_viewdict world0
                    [VName ''med'', VName ''lat'', VName ''zzz'', VName ''ven''] 3))
     = [(0, 90), (0, 90), (60, 90), (120, 90)]
   \<and> animate lh_viewdict world0 [VName ''zzz'', VName ''lat'', VName ''med''] 180
     = (Inl ValueError, world0)
   \<and> fst (animate lh_viewdict world0 [VName ''lat'', VName ''zzz'', VName ''med''] 180)
     = Inl ValueError"
proof -
  have z: "xfm_view lh_viewdict ''zzz'' ''t'' = Inl ValueError"
    by (simp add: xfm_view_def lh_viewdict_def)
  have l: "xfm_view lh_viewdict ''lat'' ''t'' = Inr (Tup (180, 90))"
    by (simp add: xfm_view_def xfm_result_def lh_viewdict_def)
  have m: "xfm_view lh_viewdict ''med'' ''t'' = Inr (Tup (0, 90))"
    by (simp add: xfm_view_def xfm_result_def lh_viewdict_def)
  have pre: "\<forall>v \<in> set [VName ''med'', VName ''lat''].
      \<exists>s' t. v = VName s' \<and> xfm_view lh_viewdict s' ''t'' = Inr (Tup t)"
    using l m by simp
  have ts: "map (\<lambda>s'. xfm_view lh_viewdict s' ''t'') [''med'', ''lat'']
      = map (\<lambda>t. Inr (Tup t)) [(0, 90), (180, 90)]"
    using l m by simp
  have mv: "moves (rotate world0 (0, 90) (180, 90) 3)
      = [(0, 90), (0, 90), (60, 90), (120, 90)]"
    by (simp add: rotate_def frames_def min_diff_def
        wrap_angle_def mlab_view_def world0_def upt_conv_Cons Let_def)
  have a0: "animate lh_viewdict world0
             (map VName [''med'', ''lat''] @ VName ''zzz'' # [VName ''ven'']) 3
     = (Inl ValueError,
        fold (\<lambda>(b, e) w'. rotate w' b e 3)
          (zip [(0, 90), (180, 90)] (tl [(0, 90), (180, 90)])) world0)"
    using animate_unknown_view_raises
      [of lh_viewdict "[''med'', ''lat'']" "[(0, 90), (180, 90)]" "''zzz''" world0
          "[VName ''ven'']" 3 "[]" "[]"] ts z
    by blast
  have a: "animate lh_viewdict world0
             ([VName ''med'', VName ''lat''] @ VName ''zzz'' # [VName ''ven'']) 3
     = (Inl ValueError, snd (animate lh_viewdict world0 [VName ''med'', VName ''lat''] 3))"
    using animate_unknown_view_raises
      [of lh_viewdict "[]" "[]" "''zzz''" world0 "[VName ''ven'']" 3
          "[VName ''med'', VName ''lat'']" "[]"]
      pre z by blast
  have b: "animate lh_viewdict world0 [VName ''zzz'', VName ''lat'', VName ''med''] 180
     = (Inl ValueError, world0)"
    using animate_unknown_view_raises
      [of lh_viewdict "[]" "[]" "''zzz''" world0 "[VName ''lat'', VName ''med'']" 180 "[]" "[]"] z
    by simp
  have c: "fst (animate lh_viewdict world0 [VName ''lat'', VName ''zzz'', VName ''med''] 180)
     = Inl ValueError"
    using animate_unknown_view_raises
      [of lh_viewdict "[]" "[]" "''zzz''" world0 "[]" 180 "[]"
          "[VName ''lat'', VName ''zzz'', VName ''med'']"] z
    by simp
  have a0': "animate lh_viewdict world0
               [VName ''med'', VName ''lat'', VName ''zzz'', VName ''ven''] 3
     = (Inl ValueError, rotate world0 (0, 90) (180, 90) 3)"
    using a0 by simp
  show ?thesis using a0' a b c mv by simp
qed

text \<open>
  C9, as stated, fails: the statement has every path of two or more views that starts
  with a tuple end in a name error. When the second view is a name that \<open>__xfm_view\<close>
  rejects, its \<open>ValueError\<close> is raised before \<open>b\<close> is read.
\<close>

theorem animate_tuple_first_counterexample:
  "fst (animate lh_viewdict world0 [VTuple (0, 0), VName ''zzz''] 180) = Inl ValueError"
  by (simp add: animate_def assign_view_def xfm_view_def lh_viewdict_def)

text \<open>
  C9, amended: for a path of two or more views whose first element is a tuple,
  \<open>animate\<close> never assigns \<open>b\<close> and fails in its first iteration, before the camera
  moves, with an error it does not catch: the \<open>ValueError\<close> of \<open>__xfm_view\<close> when the
  second view is a name it rejects, and a name error in every other case.
\<close>

theorem animate_tuple_first:
  "animate vd w (VTuple t # v2 # rest) n =
     (Inl (if (\<exists>s. v2 = VName s \<and> xfm_view vd s ''t'' = Inl ValueError)
           then ValueError else NameError), w)"
proof (cases v2)
  case (VName s)
  then show ?thesis
    using xfm_view_t_cases [of vd s]
    by (auto simp: animate_def assign_view_def)
next
  case (VTuple t2)
  then show ?thesis by (simp add: animate_def assign_view_def)
next
  case (VOther y)
  then show ?thesis by (simp add: animate_def assign_view_def)
qed

theorem animate_tuple_first_witness:
  "animate lh_viewdict world0 [VTuple (0, 0), VName ''lat'', VName ''med''] 180
     = (Inl NameError, world0)
   \<and> animate lh_viewdict world0 [VTuple (0, 0), VTuple (90, 90)] 180 = (Inl NameError, world0)"
proof -
  have "xfm_view lh_viewdict ''lat'' ''t'' \<noteq> Inl ValueError"
    by (simp add: xfm_view_def xfm_result_def lh_viewdict_def)
  then show ?thesis
    using animate_tuple_first [of lh_viewdict world0 "(0, 0)" "VName ''lat''" "[VName ''med'']" 180]
      animate_tuple_first [of lh_viewdict world0 "(0, 0)" "VTuple (90, 90)" "[]" 180]
    by simp
qed

lemma moves_mlab_view: "moves (mlab_view w v) = moves w @ [v]"
  by (simp add: mlab_view_def)

lemma report_mlab_view: "report (mlab_view w v) = report w"
  by (simp add: mlab_view_def)

lemma moves_fold_view:
  "moves (fold (\<lambda>nv w'. mlab_view w' nv) fs w) = moves w @ fs"
  by (induction fs arbitrary: w) (simp_all add: moves_mlab_view)

lemma moves_rotate:
  "moves (rotate w b e n) =
     moves w @ b # frames (report w b)
       (fst (min_diff b e) / real_of_int n, snd (min_diff b e) / real_of_int n) n"
  by (simp add: rotate_def Let_def moves_fold_view moves_mlab_view report_mlab_view)

lemma min_diff_same: "min_diff b b = (0, 0)"
  by (simp add: min_diff_def wrap_angle_def)

lemma animate_pair:
  assumes "xfm_view vd s1 ''t'' = Inr (Tup b)" and "xfm_view vd s2 ''t'' = Inr (Tup e)"
  shows "animate vd w [VName s1, VName s2] n = (Inr (), rotate w b e n)"
  using assms by (simp add: animate_def assign_view_def)

text \<open>
  C8: for two view names that resolve to \<open>b\<close> and \<open>e\<close>, and a positive \<open>n\<close>, \<open>animate\<close>
  positions the camera at \<open>b\<close> and then sets it to exactly \<open>n\<close> orientations, the
  \<open>i\<close>-th being \<open>b + i * (__min_diff(b, e) / n)\<close> for \<open>i\<close> from 0 to \<open>n - 1\<close>; when
  \<open>b = e\<close> all of them equal \<open>b\<close>. The code adds the steps to \<open>ov\<close>, the orientation
  \<open>mlab.view\<close> reports once the camera was set to \<open>b\<close>: the renderer is taken to report
  the orientation it was given.
\<close>

theorem animate_interpolation:
  assumes "xfm_view vd s1 ''t'' = Inr (Tup b)" and "xfm_view vd s2 ''t'' = Inr (Tup e)"
    and "0 < n" and "report w b = b"
  shows "fst (animate vd w [VName s1, VName s2] n) = Inr ()
     \<and> moves (snd (animate vd w [VName s1, VName s2] n)) =
         moves w @ b #
           map (\<lambda>i. (fst b + real i * (fst (min_diff b e) / real_of_int n),
                     snd b + real i * (snd (min_diff b e) / real_of_int n))) [0..<nat n]
     \<and> int (length (map (\<lambda>i. (fst b + real i * (fst (min_diff b e) / real_of_int n),
                     snd b + real i * (snd (min_diff b e) / real_of_int n))) [0..<nat n])) = n
     \<and> (b = e \<longrightarrow>
          moves (snd (animate vd w [VName s1, VName s2] n)) = moves w @ b # replicate (nat n) b)"
proof -
  have a: "animate vd w [VName s1, VName s2] n = (Inr (), rotate w b e n)"
    using assms(1,2) by (rule animate_pair)
  have m: "moves (rotate w b e n) =
      moves w @ b #
           map (\<lambda>i. (fst b + real i * (fst (min_diff b e) / real_of_int n),
                     snd b + real i * (snd (min_diff b e) / real_of_int n))) [0..<nat n]"
    using assms(4) by (simp add: moves_rotate frames_def)
  have same: "moves (rotate w b e n) = moves w @ b # replicate (nat n) b" if "b = e"
    using that m by (simp add: min_diff_same map_replicate_const)
  show ?thesis using a m same assms(3) by simp
qed

theorem animate_interpolation_witness:
  "moves (snd (animate lh_viewdict world0 [VName ''lat'', VName ''med''] 4))
     = [(180, 90), (180, 90), (135, 90), (90, 90), (45, 90)]
   \<and> moves (snd (animate lh_viewdict world0 [VName ''lat'', VName ''lateral''] 3))
     = [(180, 90), (180, 90), (180, 90), (180, 90)]"
proof -
  have l: "xfm_view lh_viewdict ''lat'' ''t'' = Inr (Tup (180, 90))"
    by (simp add: xfm_view_def xfm_result_def lh_viewdict_def)
  have l': "xfm_view lh_viewdict ''lateral'' ''t'' = Inr (Tup (180, 90))"
    by (simp add: xfm_view_def xfm_result_def lh_viewdict_def)
  have m: "xfm_view lh_viewdict ''med'' ''t'' = Inr (Tup (0, 90))"
    by (simp add: xfm_view_def xfm_result_def lh_viewdict_def)
  have r: "report world0 (180, 90) = (180, 90)" and e: "moves world0 = []"
    by (simp_all add: world0_def)
  have u4: "[0..<4] = [0, 1, 2, 3::nat]" and u3: "[0..<3] = [0, 1, 2::nat]"
    by (simp_all add: upt_conv_Cons)
  show ?thesis
    using animate_interpolation [OF l m _ r, of 4] animate_interpolation [OF l l' _ r, of 3]
    by (simp add: e u4 u3 min_diff_def wrap_angle_def)
qed

subsection \<open>Image sets and montages\<close>

lemmas view_defs =
  show_view_def xfm_view_def xfm_result_def lh_viewdict_def mlab_view_def say_def
  save_image_def rfind_def good_ftypes_def mlab_savefig_def view_str_def

text \<open>
  C3 against the code: \<open>save_imageset\<close> appends the file name before it shows the view
  and saves the image. With file type \<open>gif\<close>, which \<open>save_image\<close> refuses, the list names
  \<open>img_lat.gif\<close> although no such file was written. With the unknown view \<open>zzz\<close>,
  \<open>show_view\<close> has swallowed the error, so the view is not skipped: the frame of the
  camera as it stood is written as \<open>img_zzz.png\<close> and listed.
\<close>

theorem save_imageset_lists_unwritten:
  "fst (save_imageset lh_viewdict world0 ''img'' (Seq [VName ''lat'']) ''gif'')
     = Inr [''img_lat.gif'']
   \<and> files (snd (save_imageset lh_viewdict world0 ''img'' (Seq [VName ''lat'']) ''gif''))
       ''img_lat.gif'' = None
   \<and> fst (save_imageset lh_viewdict world0 ''img'' (Seq [VName ''zzz'']) ''png'')
     = Inr [''img_zzz.png'']
   \<and> files (snd (save_imageset lh_viewdict world0 ''img'' (Seq [VName ''zzz'']) ''png''))
       ''img_zzz.png'' = Some \<lparr>dims = (800, 800), tiles = []\<rparr>
   \<and> moves (snd (save_imageset lh_viewdict world0 ''img'' (Seq [VName ''zzz'']) ''png'')) = []"
  by (simp add: save_imageset_def view_defs world0_def Let_def)

text \<open>
  C1 against the code: the temporary files are removed by a loop at the end of
  \<open>save_montage\<close>, which an exception before it or inside it cuts short. With the
  order lat, lat, med the file \<open>tmp_lat.png\<close> is listed twice; its second removal
  raises \<open>OSError\<close>, and \<open>tmp_med.png\<close> stays on disk.
\<close>

theorem save_montage_leaves_temp_file:
  "fst (save_montage lh_viewdict world0 ''brain.png''
          (Seq [VName ''lat'', VName ''lat'', VName ''med'']) ''h'') = Inl OSError
   \<and> files (snd (save_montage lh_viewdict world0 ''brain.png''
                   (Seq [VName ''lat'', VName ''lat'', VName ''med'']) ''h''))
       ''tmp_med.png'' = Some \<lparr>dims = (800, 800), tiles = []\<rparr>"
  by (simp add: save_montage_def save_imageset_def view_defs world0_def Let_def
      canvas_size_def py_max_def paste_def)

text \<open>
  The same happens when a listed file cannot be opened (here the file of a view that
  is neither a string nor a tuple was never written): \<open>Image.open\<close> raises and
  \<open>tmp_lat.png\<close> stays. On a path without duplicates where every view is shown and
  saved, the montage is written and the temporary files are gone.
\<close>

lemma save_montage_undecodable:
  "fst (save_montage lh_viewdict world0 ''brain.png''
          (Seq [VName ''lat'', VOther ''5'']) ''h'') = Inl IOError
   \<and> files (snd (save_montage lh_viewdict world0 ''brain.png''
                   (Seq [VName ''lat'', VOther ''5'']) ''h''))
       ''tmp_lat.png'' = Some \<lparr>dims = (800, 800), tiles = []\<rparr>"
  by (simp add: save_montage_def save_imageset_def view_defs world0_def Let_def
      canvas_size_def py_max_def paste_def)

lemma save_montage_clean:
  "fst (save_montage lh_viewdict world0 ''brain.png''
          (Seq [VName ''lat'', VName ''med'']) ''h'') = Inr ()
   \<and> map (files (snd (save_montage lh_viewdict world0 ''brain.png''
                   (Seq [VName ''lat'', VName ''med'']) ''h'')))
       [''tmp_lat.png'', ''tmp_med.png'', ''brain.png'']
     = [None, None,
        Some \<lparr>dims = (1600, 800), tiles = [((0, 0), (800, 800)), ((800, 0), (800, 800))]\<rparr>]"
  by (simp add: save_montage_def save_imageset_def view_defs world0_def Let_def
      canvas_size_def py_max_def paste_def)

text \<open>
  End to end: with a renderer whose frames are 10 by 20 at the lateral view and 15 by
  20 elsewhere, the montage of lat and med is 25 by 20 horizontally and 15 by 40
  vertically.
\<close>

lemma save_montage_round_trip:
  "map_option dims
     (files (snd (save_montage lh_viewdict
                    (world0\<lparr>snapshot := (\<lambda>v. if v = (180, 90) then (10, 20) else (15, 20))\<rparr>)
                    ''m.png'' (Seq [VName ''lat'', VName ''med'']) ''h'')) ''m.png'')
     = Some (25, 20)
   \<and> map_option dims
     (files (snd (save_montage lh_viewdict
                    (world0\<lparr>snapshot := (\<lambda>v. if v = (180, 90) then (10, 20) else (15, 20))\<rparr>)
                    ''m.png'' (Seq [VName ''lat'', VName ''med'']) ''v'')) ''m.png'')
     = Some (15, 40)"
  by (simp add: save_montage_def save_imageset_def view_defs world0_def Let_def
      canvas_size_def py_max_def paste_def)

end
